theory Spec2Isabelle
  imports Complex_Main
begin

section \<open>Numbers and library functions\<close>

text \<open>
  The two scripts \<^verbatim>\<open>2D_contaminant_plot.py\<close> and \<^verbatim>\<open>graph-final.py\<close> compute with Python
  floats. The embedding reads a float as a real number: rounding error, overflow and the
  special values of IEEE arithmetic are outside the model. Grid coordinates are Python
  integers and stay integers.

  \<^verbatim>\<open>scipy.special.erf\<close> and \<^verbatim>\<open>scipy.special.erfc\<close> are library functions. They are taken
  as the mathematical error function, given by its Maclaurin series, and its complement.
\<close>

definition erf_term :: "real \<Rightarrow> nat \<Rightarrow> real" where
  "erf_term x n = (- 1) ^ n * x ^ (2 * n + 1) / (fact n * of_nat (2 * n + 1))"

definition erf :: "real \<Rightarrow> real" where
  "erf x = 2 / sqrt pi * (\<Sum>n. erf_term x n)"

definition erfc :: "real \<Rightarrow> real" where
  "erfc x = 1 - erf x"

text \<open>
  What stops an evaluation in the model. \<open>ZeroDivisionError\<close> is the exception Python raises
  on a float division by zero. \<open>ComplexResult\<close> is not an exception: the power
  \<^verbatim>\<open>b ** (1 / 2)\<close> of a negative float is a complex number in Python, and the computation
  carries on in complex arithmetic, which the model does not follow.
\<close>

datatype stop = ZeroDivisionError | ComplexResult

definition py_pow_half :: "real \<Rightarrow> stop + real" where
  "py_pow_half b = (if b < 0 then Inl ComplexResult else Inr (sqrt b))"

definition py_div :: "real \<Rightarrow> real \<Rightarrow> stop + real" where
  "py_div n d = (if d = 0 then Inl ZeroDivisionError else Inr (n / d))"

text \<open>
  \<^verbatim>\<open>format(c, '0.2f')\<close> prints the decimal numeral with two fractional digits nearest to
  \<open>c\<close>, a tie going to the even last digit. \<open>round_half_even (c * 100)\<close> is that numeral
  counted in hundredths.
\<close>

definition round_half_even :: "real \<Rightarrow> int" where
  "round_half_even z =
     (let f = \<lfloor>z\<rfloor>; d = z - of_int f
      in if d < 1 / 2 then f
         else if 1 / 2 < d then f + 1
         else if even f then f else f + 1)"

section \<open>Set-up\<close>

record source =
  width :: real
  concentration :: real

record material =
  ax :: real
  ay :: real

record well =
  dx :: real
  dy :: real

section \<open>Unit conversions\<close>

definition ft_to_m :: "real \<Rightarrow> real" where
  "ft_to_m ft = ft / 0.3048"

text \<open>
  Modelled from the spec: the repository has no conversion from meters back to feet; the
  specification names \<open>meters_to_feet\<close> as the inverse of \<open>feet_to_meters\<close> and says that it
  multiplies by 0.3048.
\<close>

definition meters_to_feet :: "real \<Rightarrow> real" where
  "meters_to_feet m = m * 0.3048"

section \<open>Directional spread\<close>

definition spread_x_positive :: "material \<Rightarrow> well \<Rightarrow> real \<Rightarrow> stop + real" where
  "spread_x_positive mat w vel_time =
     (case py_pow_half (ax mat * vel_time) of
        Inl e \<Rightarrow> Inl e
      | Inr r \<Rightarrow>
          (case py_div (dx w - vel_time) (2 * r) of
             Inl e \<Rightarrow> Inl e
           | Inr q \<Rightarrow> Inr (erfc q)))"

definition spread_y_positive :: "source \<Rightarrow> material \<Rightarrow> well \<Rightarrow> stop + real" where
  "spread_y_positive src mat w =
     (case py_pow_half (ay mat * dx w) of
        Inl e \<Rightarrow> Inl e
      | Inr r \<Rightarrow>
          (case py_div (dy w + width src / 2) (2 * r) of
             Inl e \<Rightarrow> Inl e
           | Inr q \<Rightarrow> Inr (erf q)))"

definition spread_y_negative :: "source \<Rightarrow> material \<Rightarrow> well \<Rightarrow> stop + real" where
  "spread_y_negative src mat w =
     (case py_pow_half (ay mat * dx w) of
        Inl e \<Rightarrow> Inl e
      | Inr r \<Rightarrow>
          (case py_div (dy w - width src / 2) (2 * r) of
             Inl e \<Rightarrow> Inl e
           | Inr q \<Rightarrow> Inr (erf q)))"

section \<open>Converting spread to concentration by volume\<close>

text \<open>
  \<^verbatim>\<open>convert_to_volume\<close> returns the integer \<^verbatim>\<open>0\<close> or a string made by
  \<^verbatim>\<open>format(concentration, '0.2f')\<close>. \<open>Fixed2 n\<close> stands for the string that prints
  \<open>n\<close> hundredths. \<^verbatim>\<open>float\<close> reads either back.
\<close>

datatype volume = IntZero | Fixed2 int

definition convert_to_volume :: "source \<Rightarrow> real \<Rightarrow> volume" where
  "convert_to_volume src v =
     (let c = (concentration src / 4) * v
      in if c \<le> 0.01 then IntZero else Fixed2 (round_half_even (c * 100)))"

fun py_float :: "volume \<Rightarrow> real" where
  "py_float IntZero = 0"
| "py_float (Fixed2 n) = of_int n / 100"

definition calc_concentration :: "source \<Rightarrow> material \<Rightarrow> well \<Rightarrow> real \<Rightarrow> stop + real" where
  "calc_concentration src mat w vel_time =
     (case spread_x_positive mat w vel_time of
        Inl e \<Rightarrow> Inl e
      | Inr spread_x \<Rightarrow>
          (case spread_y_positive src mat w of
             Inl e \<Rightarrow> Inl e
           | Inr spread_y_pos \<Rightarrow>
               (case spread_y_negative src mat w of
                  Inl e \<Rightarrow> Inl e
                | Inr spread_y_neg \<Rightarrow>
                    Inr (py_float (convert_to_volume src
                           (spread_x * (spread_y_pos - spread_y_neg)))))))"

section \<open>Calculating concentrations\<close>

text \<open>
  \<^verbatim>\<open>range(start, stop, step)\<close> for a positive step.
\<close>

definition py_range :: "int \<Rightarrow> int \<Rightarrow> int \<Rightarrow> int list" where
  "py_range start stop step =
     map (\<lambda>k. start + step * int k) [0..<nat ((stop - start + step - 1) div step)]"

text \<open>
  A sample is a grid point in feet with its concentration: the list
  \<^verbatim>\<open>[dist_x, dist_y, well_con]\<close> of \<^verbatim>\<open>2D_contaminant_plot.py\<close>, the tuple
  \<^verbatim>\<open>(dist_x, dist_y, well_con)\<close> of \<^verbatim>\<open>graph-final.py\<close>.
\<close>

type_synonym sample = "int \<times> int \<times> real"

definition grid_well :: "int \<Rightarrow> int \<Rightarrow> well" where
  "grid_well dist_x dist_y = \<lparr>dx = ft_to_m (of_int dist_x), dy = ft_to_m (of_int dist_y)\<rparr>"

subsection \<open>\<^verbatim>\<open>2D_contaminant_plot.py\<close>: four band lists\<close>

record bands =
  over_900 :: "sample list"
  over_500 :: "sample list"
  over_300 :: "sample list"
  over_100 :: "sample list"

definition record_plot :: "int \<Rightarrow> int \<Rightarrow> real \<Rightarrow> bands \<Rightarrow> bands" where
  "record_plot dist_x dist_y well_con st =
     (if 900 \<le> well_con then st\<lparr>over_900 := over_900 st @ [(dist_x, dist_y, well_con)]\<rparr>
      else if 500 \<le> well_con then st\<lparr>over_500 := over_500 st @ [(dist_x, dist_y, well_con)]\<rparr>
      else if 300 \<le> well_con then st\<lparr>over_300 := over_300 st @ [(dist_x, dist_y, well_con)]\<rparr>
      else if 100 \<le> well_con then st\<lparr>over_100 := over_100 st @ [(dist_x, dist_y, well_con)]\<rparr>
      else st)"

fun sweep_y_plot ::
  "source \<Rightarrow> material \<Rightarrow> real \<Rightarrow> int \<Rightarrow> int list \<Rightarrow> bands \<Rightarrow> stop + bands" where
  "sweep_y_plot src mat vt dist_x [] st = Inr st"
| "sweep_y_plot src mat vt dist_x (dist_y # ys) st =
     (case calc_concentration src mat (grid_well dist_x dist_y) vt of
        Inl e \<Rightarrow> Inl e
      | Inr well_con \<Rightarrow> sweep_y_plot src mat vt dist_x ys (record_plot dist_x dist_y well_con st))"

fun sweep_x_plot ::
  "source \<Rightarrow> material \<Rightarrow> real \<Rightarrow> int list \<Rightarrow> bands \<Rightarrow> stop + bands" where
  "sweep_x_plot src mat vt [] st = Inr st"
| "sweep_x_plot src mat vt (dist_x # xs) st =
     (case sweep_y_plot src mat vt dist_x (py_range 0 201 1) st of
        Inl e \<Rightarrow> Inl e
      | Inr st' \<Rightarrow> sweep_x_plot src mat vt xs st')"

definition get_data_plot :: "source \<Rightarrow> material \<Rightarrow> real \<Rightarrow> stop + sample list list" where
  "get_data_plot src mat vt =
     (case sweep_x_plot src mat vt (py_range 2 450 2)
             \<lparr>over_900 = [], over_500 = [], over_300 = [], over_100 = []\<rparr> of
        Inl e \<Rightarrow> Inl e
      | Inr st \<Rightarrow> Inr [over_900 st, over_500 st, over_300 st, over_100 st])"

definition reflect_over_y_axis_plot :: "sample list \<Rightarrow> sample list" where
  "reflect_over_y_axis_plot d = d @ map (\<lambda>(x, y, c). (x, - y, c)) d"

definition get_all_coord_plot :: "sample list list \<Rightarrow> sample list list" where
  "get_all_coord_plot data = map reflect_over_y_axis_plot data"

text \<open>
  \<^verbatim>\<open>set(use_set).issubset(lst)\<close>: each of the two coordinates is equal, as a Python number,
  to some entry of the list \<^verbatim>\<open>[x, y, c]\<close>.
\<close>

definition py_in :: "int \<Rightarrow> sample \<Rightarrow> bool" where
  "py_in v lst = (case lst of (x, y, c) \<Rightarrow> v = x \<or> v = y \<or> of_int v = c)"

definition issubset :: "int \<Rightarrow> int \<Rightarrow> sample \<Rightarrow> bool" where
  "issubset coord_x coord_y lst = (py_in coord_x lst \<and> py_in coord_y lst)"

fun scan_list_plot :: "int \<Rightarrow> int \<Rightarrow> sample list \<Rightarrow> real option" where
  "scan_list_plot coord_x coord_y [] = None"
| "scan_list_plot coord_x coord_y (lst # rest) =
     (if issubset coord_x coord_y lst then Some (snd (snd lst))
      else scan_list_plot coord_x coord_y rest)"

fun get_specific_concentration_plot :: "int \<Rightarrow> int \<Rightarrow> sample list list \<Rightarrow> real option" where
  "get_specific_concentration_plot coord_x coord_y [] = None"
| "get_specific_concentration_plot coord_x coord_y (d # ds) =
     (case scan_list_plot coord_x coord_y d of
        Some c \<Rightarrow> Some c
      | None \<Rightarrow> get_specific_concentration_plot coord_x coord_y ds)"

text \<open>
  \<^verbatim>\<open>main\<close> of \<^verbatim>\<open>2D_contaminant_plot.py\<close> prints 0 when the lookup returns \<^verbatim>\<open>None\<close>.
\<close>

definition user_con_plot :: "int \<Rightarrow> int \<Rightarrow> sample list list \<Rightarrow> real" where
  "user_con_plot user_x user_y all_data =
     (case get_specific_concentration_plot user_x user_y all_data of
        None \<Rightarrow> 0
      | Some c \<Rightarrow> c)"

subsection \<open>\<^verbatim>\<open>graph-final.py\<close>: columns and triples\<close>

record sweep =
  x_data :: "int list"
  y_data :: "int list"
  con_data :: "real list"
  tri_data :: "sample list"

type_synonym columns = "int list \<times> int list \<times> real list"

definition record_final :: "int \<Rightarrow> int \<Rightarrow> real \<Rightarrow> sweep \<Rightarrow> sweep" where
  "record_final dist_x dist_y well_con st =
     st\<lparr>x_data := x_data st @ [dist_x],
        y_data := y_data st @ [dist_y],
        con_data := con_data st @ [well_con],
        tri_data := tri_data st @ [(dist_x, dist_y, well_con)]\<rparr>"

fun sweep_y_final ::
  "source \<Rightarrow> material \<Rightarrow> real \<Rightarrow> int \<Rightarrow> int list \<Rightarrow> sweep \<Rightarrow> stop + sweep" where
  "sweep_y_final src mat vt dist_x [] st = Inr st"
| "sweep_y_final src mat vt dist_x (dist_y # ys) st =
     (case calc_concentration src mat (grid_well dist_x dist_y) vt of
        Inl e \<Rightarrow> Inl e
      | Inr well_con \<Rightarrow> sweep_y_final src mat vt dist_x ys (record_final dist_x dist_y well_con st))"

fun sweep_x_final ::
  "source \<Rightarrow> material \<Rightarrow> real \<Rightarrow> int list \<Rightarrow> sweep \<Rightarrow> stop + sweep" where
  "sweep_x_final src mat vt [] st = Inr st"
| "sweep_x_final src mat vt (dist_x # xs) st =
     (case sweep_y_final src mat vt dist_x (py_range 0 201 1) st of
        Inl e \<Rightarrow> Inl e
      | Inr st' \<Rightarrow> sweep_x_final src mat vt xs st')"

definition get_data_final ::
  "source \<Rightarrow> material \<Rightarrow> real \<Rightarrow> stop + (columns \<times> sample list)" where
  "get_data_final src mat vt =
     (case sweep_x_final src mat vt (py_range 2 450 2)
             \<lparr>x_data = [], y_data = [], con_data = [], tri_data = []\<rparr> of
        Inl e \<Rightarrow> Inl e
      | Inr st \<Rightarrow> Inr ((x_data st, y_data st, con_data st), tri_data st))"

fun reflect_over_y_axis_final :: "columns \<Rightarrow> columns" where
  "reflect_over_y_axis_final (xd, yd, zd) = (xd @ xd, yd @ map uminus yd, zd @ zd)"

definition get_all_coord_final :: "columns \<Rightarrow> columns" where
  "get_all_coord_final data = reflect_over_y_axis_final data"

text \<open>
  \<^verbatim>\<open>create_plot\<close> reads the columns back as records \<^verbatim>\<open>(x, all_y[i], all_z[i])\<close>.
\<close>

fun samples_of :: "columns \<Rightarrow> sample list" where
  "samples_of (all_x, all_y, all_z) = zip all_x (zip all_y all_z)"

text \<open>
  \<^verbatim>\<open>get_specific_concentration\<close> of \<^verbatim>\<open>graph-final.py\<close> prompts until the point is
  accepted, then scans the triples and prints \<^verbatim>\<open>user_con\<close>. The two predicates are its
  acceptance tests; the function is the scan, and its value the number printed.
\<close>

definition accepts_x :: "int \<Rightarrow> bool" where
  "accepts_x user_x = (user_x mod 2 = 0 \<and> 2 \<le> user_x \<and> user_x \<le> 400)"

definition accepts_y :: "int \<Rightarrow> bool" where
  "accepts_y user_y = (- 200 \<le> user_y \<and> user_y \<le> 200)"

fun get_specific_concentration_final :: "int \<Rightarrow> int \<Rightarrow> sample list \<Rightarrow> real \<Rightarrow> real" where
  "get_specific_concentration_final user_x user_y [] user_con = user_con"
| "get_specific_concentration_final user_x user_y (pair # rest) user_con =
     get_specific_concentration_final user_x user_y rest
       (if user_x = fst pair \<and> \<bar>user_y\<bar> = fst (snd pair) then snd (snd pair) else user_con)"

section \<open>Main\<close>

definition source_1 :: source where
  "source_1 = \<lparr>width = ft_to_m 200, concentration = 1000\<rparr>"

definition material_1 :: material where
  "material_1 = \<lparr>ax = ft_to_m 10, ay = ft_to_m 6\<rparr>"

definition velocity_time :: real where
  "velocity_time = ft_to_m 350"

text \<open>
  \<^verbatim>\<open>main\<close> computes the half plane, reflects it, and answers the query of the user. The
  definitions below follow it with the source, the material and the travel distance as
  arguments. In \<^verbatim>\<open>2D_contaminant_plot.py\<close> the query runs over the reflected band lists
  and a missing point prints 0; in \<^verbatim>\<open>graph-final.py\<close> it runs over the triples of the
  half plane, and the reflected columns go to the plot.
\<close>

definition all_data_plot :: "source \<Rightarrow> material \<Rightarrow> real \<Rightarrow> stop + sample list list" where
  "all_data_plot src mat vt =
     (case get_data_plot src mat vt of
        Inl e \<Rightarrow> Inl e
      | Inr positive_y_data \<Rightarrow> Inr (get_all_coord_plot positive_y_data))"

definition main_plot :: "source \<Rightarrow> material \<Rightarrow> real \<Rightarrow> int \<Rightarrow> int \<Rightarrow> stop + real" where
  "main_plot src mat vt user_x user_y =
     (case all_data_plot src mat vt of
        Inl e \<Rightarrow> Inl e
      | Inr all_data \<Rightarrow> Inr (user_con_plot user_x user_y all_data))"

definition all_data_final :: "source \<Rightarrow> material \<Rightarrow> real \<Rightarrow> stop + columns" where
  "all_data_final src mat vt =
     (case get_data_final src mat vt of
        Inl e \<Rightarrow> Inl e
      | Inr positive_y_data \<Rightarrow> Inr (get_all_coord_final (fst positive_y_data)))"

definition main_final :: "source \<Rightarrow> material \<Rightarrow> real \<Rightarrow> int \<Rightarrow> int \<Rightarrow> stop + real" where
  "main_final src mat vt user_x user_y =
     (case get_data_final src mat vt of
        Inl e \<Rightarrow> Inl e
      | Inr positive_y_data \<Rightarrow>
          Inr (get_specific_concentration_final user_x user_y (snd positive_y_data) 0))"

text \<open>The feet coordinates of a list of samples.\<close>

definition sample_keys :: "sample list \<Rightarrow> (int \<times> int) list" where
  "sample_keys d = map (\<lambda>(x, y, c). (x, y)) d"

text \<open>
  A second set of parameters: a source 24 ft wide of 20 \<open>\<mu>\<close>g/L, after 6 ft of travel, in
  the material of \<^verbatim>\<open>main\<close>.
\<close>

definition source_2 :: source where
  "source_2 = \<lparr>width = ft_to_m 24, concentration = 20\<rparr>"

definition velocity_time_2 :: real where
  "velocity_time_2 = ft_to_m 6"

section \<open>The error function\<close>

lemma erf_term_abs_le: "\<bar>erf_term x n\<bar> \<le> \<bar>x\<bar> * (inverse (fact n) * (x\<^sup>2) ^ n)"
proof -
  have "\<bar>erf_term x n\<bar> = \<bar>x\<bar> * (x\<^sup>2) ^ n / (fact n * of_nat (2 * n + 1))"
    by (simp add: erf_term_def abs_mult power_abs power_mult power_even_abs)
  also have "\<dots> \<le> \<bar>x\<bar> * (x\<^sup>2) ^ n / (fact n * 1)"
    by (intro divide_left_mono mult_left_mono mult_nonneg_nonneg) auto
  finally show ?thesis by (simp add: field_simps)
qed

lemma summable_erf_term: "summable (erf_term x)"
proof (rule summable_comparison_test')
  show "summable (\<lambda>n. \<bar>x\<bar> * (inverse (fact n) * (x\<^sup>2) ^ n))"
    by (intro summable_mult summable_exp)
  show "norm (erf_term x n) \<le> \<bar>x\<bar> * (inverse (fact n) * (x\<^sup>2) ^ n)" for n
    using erf_term_abs_le [of x n] by simp
qed

lemma erf_zero: "erf 0 = 0"
  by (simp add: erf_def erf_term_def)

lemma erf_minus: "erf (- x) = - erf x"
proof -
  have "erf_term (- x) n = - erf_term x n" for n
    by (simp add: erf_term_def)
  then have "(\<Sum>n. erf_term (- x) n) = - (\<Sum>n. erf_term x n)"
    using suminf_minus [OF summable_erf_term [of x]] by simp
  then show ?thesis by (simp add: erf_def)
qed

lemma erfc_zero: "erfc 0 = 1"
  by (simp add: erfc_def erf_zero)

lemma summable_inverse_fact: "summable (\<lambda>n. inverse (fact n) :: real)"
  using summable_exp [of "1::real"] by simp

lemma suminf_inverse_fact: "(\<Sum>n. inverse (fact n) :: real) = exp 1"
  by (simp add: exp_def divide_inverse)

lemma erf_series_one_upper: "(\<Sum>n. erf_term 1 n) \<le> 3"
proof -
  have "(\<Sum>n. erf_term 1 n) \<le> (\<Sum>n. inverse (fact n))"
  proof (rule suminf_le [OF _ summable_erf_term summable_inverse_fact])
    show "erf_term 1 n \<le> inverse (fact n)" for n
      using erf_term_abs_le [of 1 n] by simp
  qed
  also have "\<dots> \<le> 3"
    using exp_le by (simp only: suminf_inverse_fact)
  finally show ?thesis .
qed

lemma erf_series_one_lower: "1 / 3 \<le> (\<Sum>n. erf_term 1 n)"
proof -
  let ?h = "\<lambda>n::nat. if n = 0 then 4 / 3 else (0::real)"
  let ?g = "\<lambda>n::nat. ?h n - 1 / 3 * inverse (fact n)"
  have sh: "summable ?h" by (rule summable_single)
  have sf: "summable (\<lambda>n. 1 / 3 * inverse (fact n) :: real)"
    by (rule summable_mult [OF summable_inverse_fact])
  have sg: "summable ?g" by (rule summable_diff [OF sh sf])
  have "(\<Sum>n. ?g n) = (\<Sum>n. ?h n) - (\<Sum>n. 1 / 3 * inverse (fact n))"
    by (rule suminf_diff [OF sh sf, symmetric])
  also have "(\<Sum>n. ?h n) = 4 / 3"
    using sums_single [of 0 "\<lambda>_. 4 / 3 :: real"] by (simp add: sums_iff)
  also have "(\<Sum>n. 1 / 3 * inverse (fact n) :: real) = 1 / 3 * exp 1"
    using suminf_mult [OF summable_inverse_fact, of "1 / 3"]
    by (simp only: suminf_inverse_fact)
  finally have "(\<Sum>n. ?g n) = 4 / 3 - 1 / 3 * exp 1" .
  moreover have "exp (1::real) \<le> 3" by (rule exp_le)
  ultimately have "1 / 3 \<le> (\<Sum>n. ?g n)" by simp
  also have "\<dots> \<le> (\<Sum>n. erf_term 1 n)"
  proof (rule suminf_le [OF _ sg summable_erf_term])
    fix n :: nat
    show "?g n \<le> erf_term 1 n"
    proof (cases "n = 0")
      case True
      then show ?thesis by (simp add: erf_term_def)
    next
      case False
      have "\<bar>erf_term 1 n\<bar> = inverse (fact n) / of_nat (2 * n + 1)"
        by (simp add: erf_term_def abs_mult power_abs field_simps)
      also have "\<dots> \<le> inverse (fact n) / 3"
        using False by (intro divide_left_mono) auto
      finally have "- (inverse (fact n) / 3) \<le> erf_term 1 n" by linarith
      with False show ?thesis by simp
    qed
  qed
  finally show ?thesis .
qed

lemma erf_one_bounds: "1 / 3 \<le> erf 1 \<and> erf 1 \<le> 6"
proof -
  have "sqrt pi < sqrt 4" using pi_less_4 by (simp only: real_sqrt_less_iff)
  then have u: "sqrt pi < 2" by simp
  have "sqrt 1 \<le> sqrt pi" using pi_ge_two by (simp only: real_sqrt_le_iff)
  then have l: "1 \<le> sqrt pi" by simp
  define k where "k = 2 / sqrt pi"
  have k: "1 \<le> k" "k \<le> 2"
    using l u by (simp_all add: k_def field_simps)
  define S where "S = (\<Sum>n. erf_term 1 n)"
  have S: "1 / 3 \<le> S" "S \<le> 3"
    using erf_series_one_lower erf_series_one_upper by (simp_all add: S_def)
  have e: "erf 1 = k * S" by (simp add: erf_def k_def S_def)
  have "1 * (1 / 3) \<le> k * S"
    using k S by (intro mult_mono) auto
  moreover have "k * S \<le> 2 * 3"
    using k S by (intro mult_mono) auto
  ultimately show ?thesis by (simp add: e)
qed

section \<open>Unit round trip\<close>

text \<open>
  C9. Converting feet to meters (a division by 0.3048) and then multiplying by 0.3048 gives
  the value back, exactly over the reals.
\<close>

theorem ft_to_m_round_trip: "meters_to_feet (ft_to_m v) = v"
  by (simp add: meters_to_feet_def ft_to_m_def)

section \<open>Rounding, spread and conversion\<close>

lemma round_half_even_near: "\<bar>of_int (round_half_even z) - z\<bar> \<le> 1 / 2"
  unfolding round_half_even_def Let_def by (auto; linarith)

lemma round_half_even_ge_one: "1 < z \<Longrightarrow> 1 \<le> round_half_even z"
proof -
  assume "1 < z"
  then have "1 \<le> \<lfloor>z\<rfloor>" by linarith
  then show ?thesis unfolding round_half_even_def Let_def by auto
qed

lemma round_half_even_of_int: "round_half_even (of_int n) = n"
  by (simp add: round_half_even_def)

lemma py_float_convert:
  "py_float (convert_to_volume src v) =
     (if concentration src / 4 * v \<le> 0.01 then 0
      else of_int (round_half_even (concentration src / 4 * v * 100)) / 100)"
  by (simp add: convert_to_volume_def Let_def)

lemma py_float_convert_range:
  "py_float (convert_to_volume src v) = 0 \<or> 0.01 \<le> py_float (convert_to_volume src v)"
proof (cases "concentration src / 4 * v \<le> 0.01")
  case True
  then show ?thesis by (simp add: py_float_convert)
next
  case False
  then have "1 < concentration src / 4 * v * 100" by simp
  then have "1 \<le> round_half_even (concentration src / 4 * v * 100)"
    by (rule round_half_even_ge_one)
  then have "(1::real) \<le> of_int (round_half_even (concentration src / 4 * v * 100))"
    by linarith
  with False show ?thesis by (simp add: py_float_convert)
qed

lemma twice_sqrt_nonzero: "0 < b \<Longrightarrow> 2 * sqrt b \<noteq> 0"
  using real_sqrt_gt_zero [of b] by auto

lemma py_pow_half_pos: "0 < b \<Longrightarrow> py_pow_half b = Inr (sqrt b)"
  by (simp add: py_pow_half_def)

lemma py_div_nonzero: "d \<noteq> 0 \<Longrightarrow> py_div n d = Inr (n / d)"
  by (simp add: py_div_def)

lemma spread_x_positive_pos:
  "0 < ax mat * vt \<Longrightarrow>
   spread_x_positive mat w vt = Inr (erfc ((dx w - vt) / (2 * sqrt (ax mat * vt))))"
proof -
  assume "0 < ax mat * vt"
  then have p: "py_pow_half (ax mat * vt) = Inr (sqrt (ax mat * vt))"
    by (rule py_pow_half_pos)
  from \<open>0 < ax mat * vt\<close> have "2 * sqrt (ax mat * vt) \<noteq> 0"
    by (rule twice_sqrt_nonzero)
  then have d: "py_div (dx w - vt) (2 * sqrt (ax mat * vt)) = Inr ((dx w - vt) / (2 * sqrt (ax mat * vt)))"
    by (rule py_div_nonzero)
  show ?thesis
    by (simp only: spread_x_positive_def p d sum.case)
qed

lemma spread_y_positive_pos:
  "0 < ay mat * dx w \<Longrightarrow>
   spread_y_positive src mat w = Inr (erf ((dy w + width src / 2) / (2 * sqrt (ay mat * dx w))))"
proof -
  assume "0 < ay mat * dx w"
  then have p: "py_pow_half (ay mat * dx w) = Inr (sqrt (ay mat * dx w))"
    by (rule py_pow_half_pos)
  from \<open>0 < ay mat * dx w\<close> have "2 * sqrt (ay mat * dx w) \<noteq> 0"
    by (rule twice_sqrt_nonzero)
  then have d: "py_div (dy w + width src / 2) (2 * sqrt (ay mat * dx w)) = Inr ((dy w + width src / 2) / (2 * sqrt (ay mat * dx w)))"
    by (rule py_div_nonzero)
  show ?thesis
    by (simp only: spread_y_positive_def p d sum.case)
qed

lemma spread_y_negative_pos:
  "0 < ay mat * dx w \<Longrightarrow>
   spread_y_negative src mat w = Inr (erf ((dy w - width src / 2) / (2 * sqrt (ay mat * dx w))))"
proof -
  assume "0 < ay mat * dx w"
  then have p: "py_pow_half (ay mat * dx w) = Inr (sqrt (ay mat * dx w))"
    by (rule py_pow_half_pos)
  from \<open>0 < ay mat * dx w\<close> have "2 * sqrt (ay mat * dx w) \<noteq> 0"
    by (rule twice_sqrt_nonzero)
  then have d: "py_div (dy w - width src / 2) (2 * sqrt (ay mat * dx w)) = Inr ((dy w - width src / 2) / (2 * sqrt (ay mat * dx w)))"
    by (rule py_div_nonzero)
  show ?thesis
    by (simp only: spread_y_negative_def p d sum.case)
qed

lemma calc_concentration_pos:
  assumes "0 < ax mat * vt" and "0 < ay mat * dx w"
  shows "calc_concentration src mat w vt =
     Inr (py_float (convert_to_volume src
       (erfc ((dx w - vt) / (2 * sqrt (ax mat * vt))) *
        (erf ((dy w + width src / 2) / (2 * sqrt (ay mat * dx w))) -
         erf ((dy w - width src / 2) / (2 * sqrt (ay mat * dx w)))))))"
  using assms
  by (simp only: calc_concentration_def spread_x_positive_pos spread_y_positive_pos
      spread_y_negative_pos sum.case)

section \<open>The point concentration\<close>

text \<open>
  C1. For a point with \<open>x > 0\<close>, a travel distance \<open>vt > 0\<close> and positive dispersivities,
  \<^verbatim>\<open>calc_concentration\<close> returns the thresholded and rounded value of
  \<open>(source.concentration / 4) \<times> raw\<close>, where \<open>raw\<close> is
  \<open>erfc ((x - vt) / (2 sqrt (ax vt)))\<close> times the difference of
  \<open>erf ((y + width / 2) / (2 sqrt (ay x)))\<close> and \<open>erf ((y - width / 2) / (2 sqrt (ay x)))\<close>.
\<close>

theorem calc_concentration_formula:
  assumes "0 < dx w" and "0 < vt" and "0 < ax mat" and "0 < ay mat"
  shows "calc_concentration src mat w vt =
     (let raw = erfc ((dx w - vt) / (2 * sqrt (ax mat * vt))) *
                (erf ((dy w + width src / 2) / (2 * sqrt (ay mat * dx w))) -
                 erf ((dy w - width src / 2) / (2 * sqrt (ay mat * dx w))));
          c = concentration src / 4 * raw
      in Inr (if c \<le> 0.01 then 0 else of_int (round_half_even (c * 100)) / 100))"
proof -
  have "0 < ax mat * vt" and "0 < ay mat * dx w"
    using assms by simp_all
  then show ?thesis
    unfolding Let_def by (simp only: calc_concentration_pos py_float_convert)
qed

text \<open>The point 50 ft downstream on the axis, with the parameters of \<^verbatim>\<open>main\<close>.\<close>

theorem calc_concentration_formula_witness:
  "0 < dx (grid_well 50 0) \<and> 0 < velocity_time \<and> 0 < ax material_1 \<and> 0 < ay material_1 \<and>
   calc_concentration source_1 material_1 (grid_well 50 0) velocity_time =
     (let raw = erfc ((dx (grid_well 50 0) - velocity_time) / (2 * sqrt (ax material_1 * velocity_time))) *
                (erf ((dy (grid_well 50 0) + width source_1 / 2) / (2 * sqrt (ay material_1 * dx (grid_well 50 0)))) -
                 erf ((dy (grid_well 50 0) - width source_1 / 2) / (2 * sqrt (ay material_1 * dx (grid_well 50 0)))));
          c = concentration source_1 / 4 * raw
      in Inr (if c \<le> 0.01 then 0 else of_int (round_half_even (c * 100)) / 100))"
proof -
  have h: "0 < dx (grid_well 50 0)" "0 < velocity_time" "0 < ax material_1" "0 < ay material_1"
    by (simp_all add: grid_well_def velocity_time_def material_1_def ft_to_m_def)
  from calc_concentration_formula [OF h] h show ?thesis by blast
qed

text \<open>
  C2. If \<open>(source.concentration / 4) \<times> value\<close> is at most 0.01 the result is exactly 0;
  otherwise it is that number rounded to two decimal places: a whole number of hundredths,
  at most half a hundredth away.
\<close>

theorem convert_to_volume_threshold:
  "(concentration src / 4 * v \<le> 0.01 \<longrightarrow> py_float (convert_to_volume src v) = 0) \<and>
   (0.01 < concentration src / 4 * v \<longrightarrow>
      py_float (convert_to_volume src v) =
        of_int (round_half_even (concentration src / 4 * v * 100)) / 100 \<and>
      \<bar>py_float (convert_to_volume src v) - concentration src / 4 * v\<bar> \<le> 0.005)"
proof -
  define c where "c = concentration src / 4 * v"
  define r :: real where "r = of_int (round_half_even (c * 100))"
  have pf: "py_float (convert_to_volume src v) = (if c \<le> 0.01 then 0 else r / 100)"
    unfolding c_def r_def by (rule py_float_convert)
  have "\<bar>r - c * 100\<bar> \<le> 1 / 2"
    unfolding r_def by (rule round_half_even_near)
  moreover have "r / 100 - c = (r - c * 100) / 100" by simp
  then have "\<bar>r / 100 - c\<bar> = \<bar>r - c * 100\<bar> / 100" by (simp only: abs_divide)
  ultimately have near: "\<bar>r / 100 - c\<bar> \<le> 0.005" by simp
  have "(c \<le> 0.01 \<longrightarrow> py_float (convert_to_volume src v) = 0) \<and>
        (0.01 < c \<longrightarrow> py_float (convert_to_volume src v) = r / 100 \<and>
           \<bar>py_float (convert_to_volume src v) - c\<bar> \<le> 0.005)"
    using near by (simp add: pf)
  then show ?thesis unfolding c_def r_def .
qed

text \<open>A spread below the threshold, and one above it, for the source of \<^verbatim>\<open>main\<close>.\<close>

theorem convert_to_volume_threshold_witness:
  "py_float (convert_to_volume source_1 (1 / 100000)) = 0 \<and>
   py_float (convert_to_volume source_1 (1 / 2)) = 125"
proof -
  have a: "concentration source_1 / 4 * (1 / 100000) \<le> 0.01"
    by (simp add: source_1_def)
  have b: "0.01 < concentration source_1 / 4 * (1 / 2)"
    by (simp add: source_1_def)
  have "concentration source_1 / 4 * (1 / 2) * 100 = of_int 12500"
    by (simp add: source_1_def)
  then have r: "round_half_even (concentration source_1 / 4 * (1 / 2) * 100) = 12500"
    by (simp only: round_half_even_of_int)
  from convert_to_volume_threshold [of source_1 "1 / 100000"] a
  have "py_float (convert_to_volume source_1 (1 / 100000)) = 0" by blast
  moreover from convert_to_volume_threshold [of source_1 "1 / 2"] b
  have "py_float (convert_to_volume source_1 (1 / 2)) =
        of_int (round_half_even (concentration source_1 / 4 * (1 / 2) * 100)) / 100" by blast
  then have "py_float (convert_to_volume source_1 (1 / 2)) = of_int 12500 / 100"
    by (simp only: r)
  then have "py_float (convert_to_volume source_1 (1 / 2)) = 125"
    by simp
  ultimately show ?thesis by blast
qed

text \<open>
  C10. The evaluator never returns a value strictly between 0 and 0.01: a result is 0 or
  at least 0.01, for the conversion of any spread value and for any point on which
  \<^verbatim>\<open>calc_concentration\<close> returns.
\<close>

theorem calc_concentration_no_small_value:
  "(py_float (convert_to_volume src v) = 0 \<or> 0.01 \<le> py_float (convert_to_volume src v)) \<and>
   (calc_concentration src mat w vt = Inr r \<longrightarrow> r = 0 \<or> 0.01 \<le> r)"
  using py_float_convert_range
  by (auto simp: calc_concentration_def split: sum.splits)

text \<open>The point 50 ft downstream on the axis again.\<close>

theorem calc_concentration_no_small_value_witness:
  "calc_concentration source_1 material_1 (grid_well 50 0) velocity_time =
     Inr (py_float (convert_to_volume source_1
       (erfc ((dx (grid_well 50 0) - velocity_time) / (2 * sqrt (ax material_1 * velocity_time))) *
        (erf ((dy (grid_well 50 0) + width source_1 / 2) / (2 * sqrt (ay material_1 * dx (grid_well 50 0)))) -
         erf ((dy (grid_well 50 0) - width source_1 / 2) / (2 * sqrt (ay material_1 * dx (grid_well 50 0)))))))) \<and>
   (py_float (convert_to_volume source_1
       (erfc ((dx (grid_well 50 0) - velocity_time) / (2 * sqrt (ax material_1 * velocity_time))) *
        (erf ((dy (grid_well 50 0) + width source_1 / 2) / (2 * sqrt (ay material_1 * dx (grid_well 50 0)))) -
         erf ((dy (grid_well 50 0) - width source_1 / 2) / (2 * sqrt (ay material_1 * dx (grid_well 50 0))))))) = 0 \<or>
    0.01 \<le> py_float (convert_to_volume source_1
       (erfc ((dx (grid_well 50 0) - velocity_time) / (2 * sqrt (ax material_1 * velocity_time))) *
        (erf ((dy (grid_well 50 0) + width source_1 / 2) / (2 * sqrt (ay material_1 * dx (grid_well 50 0)))) -
         erf ((dy (grid_well 50 0) - width source_1 / 2) / (2 * sqrt (ay material_1 * dx (grid_well 50 0))))))))"
proof -
  have h: "0 < ax material_1 * velocity_time" "0 < ay material_1 * dx (grid_well 50 0)"
    by (simp_all add: grid_well_def velocity_time_def material_1_def ft_to_m_def)
  note e = calc_concentration_pos [OF h, of source_1]
  from calc_concentration_no_small_value [of source_1 _ material_1 "grid_well 50 0" velocity_time] e
  show ?thesis by blast
qed

section \<open>What the spread functions do outside their domain\<close>

lemma spread_core_cases:
  "(case py_pow_half b of
      Inl e \<Rightarrow> Inl e
    | Inr r \<Rightarrow> (case py_div n (2 * r) of Inl e \<Rightarrow> Inl e | Inr q \<Rightarrow> Inr (f q))) =
   (if b < 0 then Inl ComplexResult
    else if b = 0 then Inl ZeroDivisionError
    else Inr (f (n / (2 * sqrt b))))"
  by (simp add: py_pow_half_def py_div_def)

lemma spread_x_positive_cases:
  "spread_x_positive mat w vt =
     (if ax mat * vt < 0 then Inl ComplexResult
      else if ax mat * vt = 0 then Inl ZeroDivisionError
      else Inr (erfc ((dx w - vt) / (2 * sqrt (ax mat * vt)))))"
  unfolding spread_x_positive_def by (rule spread_core_cases)

lemma spread_y_positive_cases:
  "spread_y_positive src mat w =
     (if ay mat * dx w < 0 then Inl ComplexResult
      else if ay mat * dx w = 0 then Inl ZeroDivisionError
      else Inr (erf ((dy w + width src / 2) / (2 * sqrt (ay mat * dx w)))))"
  unfolding spread_y_positive_def by (rule spread_core_cases)

lemma spread_y_negative_cases:
  "spread_y_negative src mat w =
     (if ay mat * dx w < 0 then Inl ComplexResult
      else if ay mat * dx w = 0 then Inl ZeroDivisionError
      else Inr (erf ((dy w - width src / 2) / (2 * sqrt (ay mat * dx w)))))"
  unfolding spread_y_negative_def by (rule spread_core_cases)

text \<open>
  C6 as stated fails: the claim is that a spread function called with a non-positive travel
  distance, x-coordinate or dispersivity stops with an error. At a point 2 ft upstream of
  the source, with the material and travel distance of \<^verbatim>\<open>main\<close>, \<^verbatim>\<open>spread_x_positive\<close>
  returns a value.
\<close>

theorem spread_x_positive_accepts_negative_x:
  "dx (grid_well (- 2) 0) \<le> 0 \<and>
   spread_x_positive material_1 (grid_well (- 2) 0) velocity_time =
     Inr (erfc ((dx (grid_well (- 2) 0) - velocity_time) /
                (2 * sqrt (ax material_1 * velocity_time))))"
proof -
  have "0 < ax material_1 * velocity_time"
    by (simp add: material_1_def velocity_time_def ft_to_m_def)
  then have "spread_x_positive material_1 (grid_well (- 2) 0) velocity_time =
     Inr (erfc ((dx (grid_well (- 2) 0) - velocity_time) /
                (2 * sqrt (ax material_1 * velocity_time))))"
    by (rule spread_x_positive_pos)
  moreover have "dx (grid_well (- 2) 0) \<le> 0"
    by (simp add: grid_well_def ft_to_m_def)
  ultimately show ?thesis by blast
qed

text \<open>
  C6, amended. The spread functions test nothing. \<^verbatim>\<open>spread_x_positive\<close> raises
  \<^verbatim>\<open>ZeroDivisionError\<close> exactly when \<open>ax \<times> vt = 0\<close>, leaves the floats for a complex number
  exactly when \<open>ax \<times> vt < 0\<close>, and returns its erfc value when \<open>ax \<times> vt > 0\<close>, whatever the
  sign of x. The two lateral functions do the same on \<open>ay \<times> x\<close>.
\<close>

theorem spread_functions_unguarded:
  "(spread_x_positive mat w vt = Inl ZeroDivisionError \<longleftrightarrow> ax mat * vt = 0) \<and>
   (spread_x_positive mat w vt = Inl ComplexResult \<longleftrightarrow> ax mat * vt < 0) \<and>
   (0 < ax mat * vt \<longrightarrow>
      spread_x_positive mat w vt = Inr (erfc ((dx w - vt) / (2 * sqrt (ax mat * vt))))) \<and>
   (spread_y_positive src mat w = Inl ZeroDivisionError \<longleftrightarrow> ay mat * dx w = 0) \<and>
   (spread_y_positive src mat w = Inl ComplexResult \<longleftrightarrow> ay mat * dx w < 0) \<and>
   (0 < ay mat * dx w \<longrightarrow>
      spread_y_positive src mat w =
        Inr (erf ((dy w + width src / 2) / (2 * sqrt (ay mat * dx w))))) \<and>
   (spread_y_negative src mat w = Inl ZeroDivisionError \<longleftrightarrow> ay mat * dx w = 0) \<and>
   (spread_y_negative src mat w = Inl ComplexResult \<longleftrightarrow> ay mat * dx w < 0) \<and>
   (0 < ay mat * dx w \<longrightarrow>
      spread_y_negative src mat w =
        Inr (erf ((dy w - width src / 2) / (2 * sqrt (ay mat * dx w)))))"
proof -
  have *: "(if b < 0 then Inl ComplexResult
            else if b = 0 then Inl ZeroDivisionError else Inr v) = Inl ZeroDivisionError
           \<longleftrightarrow> b = 0"
          "(if b < 0 then Inl ComplexResult
            else if b = 0 then Inl ZeroDivisionError else Inr v) = Inl ComplexResult
           \<longleftrightarrow> b < 0"
          "0 < b \<longrightarrow> (if b < 0 then Inl ComplexResult
            else if b = 0 then Inl ZeroDivisionError else Inr v) = Inr v"
    for b :: real and v :: real
    by auto
  show ?thesis
    unfolding spread_x_positive_cases spread_y_positive_cases spread_y_negative_cases
    by (intro conjI *)
qed

text \<open>
  A zero travel distance, a point on the source line, a negative travel distance, and a
  point upstream of the source.
\<close>

theorem spread_functions_unguarded_witness:
  "spread_x_positive material_1 (grid_well 50 0) 0 = Inl ZeroDivisionError \<and>
   spread_y_positive source_1 material_1 (grid_well 0 7) = Inl ZeroDivisionError \<and>
   spread_y_negative source_1 material_1 (grid_well 0 7) = Inl ZeroDivisionError \<and>
   spread_x_positive material_1 (grid_well 50 0) (- 1) = Inl ComplexResult \<and>
   spread_x_positive material_1 (grid_well (- 2) 0) velocity_time =
     Inr (erfc ((dx (grid_well (- 2) 0) - velocity_time) /
                (2 * sqrt (ax material_1 * velocity_time))))"
proof -
  have a: "ax material_1 * 0 = 0" by simp
  have b: "ay material_1 * dx (grid_well 0 7) = 0" by (simp add: grid_well_def ft_to_m_def)
  have c: "ax material_1 * (- 1) < 0" by (simp add: material_1_def ft_to_m_def)
  have d: "0 < ax material_1 * velocity_time"
    by (simp add: material_1_def velocity_time_def ft_to_m_def)
  from spread_functions_unguarded [where mat = material_1 and w = "grid_well 50 0" and vt = 0] a
  have 1: "spread_x_positive material_1 (grid_well 50 0) 0 = Inl ZeroDivisionError" by blast
  from spread_functions_unguarded [where src = source_1 and mat = material_1 and w = "grid_well 0 7"] b
  have 2: "spread_y_positive source_1 material_1 (grid_well 0 7) = Inl ZeroDivisionError"
    and 3: "spread_y_negative source_1 material_1 (grid_well 0 7) = Inl ZeroDivisionError"
    by blast+
  from spread_functions_unguarded [where mat = material_1 and w = "grid_well 50 0" and vt = "- 1"] c
  have 4: "spread_x_positive material_1 (grid_well 50 0) (- 1) = Inl ComplexResult" by blast
  from spread_functions_unguarded [where mat = material_1 and w = "grid_well (- 2) 0" and vt = velocity_time] d
  have 5: "spread_x_positive material_1 (grid_well (- 2) 0) velocity_time =
     Inr (erfc ((dx (grid_well (- 2) 0) - velocity_time) /
                (2 * sqrt (ax material_1 * velocity_time))))" by blast
  from 1 2 3 4 5 show ?thesis by blast
qed

section \<open>The grid\<close>

lemma py_range_x: "x \<in> set (py_range 2 450 2) \<longleftrightarrow> even x \<and> 2 \<le> x \<and> x \<le> 448"
proof
  assume "x \<in> set (py_range 2 450 2)"
  then obtain k :: nat where "k < 224" "x = 2 + 2 * int k"
    by (auto simp: py_range_def)
  then show "even x \<and> 2 \<le> x \<and> x \<le> 448" by simp
next
  assume a: "even x \<and> 2 \<le> x \<and> x \<le> 448"
  then obtain j where j: "x = 2 * j" by (auto elim: evenE)
  with a have "x = 2 + 2 * int (nat (j - 1))" "nat (j - 1) < 224" by auto
  then show "x \<in> set (py_range 2 450 2)"
    by (auto simp: py_range_def image_iff intro!: bexI [of _ "nat (j - 1)"])
qed

lemma py_range_y: "y \<in> set (py_range 0 201 1) \<longleftrightarrow> 0 \<le> y \<and> y \<le> 200"
proof
  assume "y \<in> set (py_range 0 201 1)"
  then obtain k :: nat where "k < 201" "y = int k"
    by (auto simp: py_range_def)
  then show "0 \<le> y \<and> y \<le> 200" by simp
next
  assume a: "0 \<le> y \<and> y \<le> 200"
  then have "y = int (nat y)" "nat y < 201" by auto
  then show "y \<in> set (py_range 0 201 1)"
    by (auto simp: py_range_def image_iff intro!: bexI [of _ "nat y"])
qed

lemma distinct_py_range: "0 < step \<Longrightarrow> distinct (py_range start stop step)"
  by (auto simp: py_range_def distinct_map inj_on_def)

lemma ft_to_m_minus: "ft_to_m (- v) = - ft_to_m v"
  by (simp add: ft_to_m_def)

lemma calc_concentration_mirror:
  "calc_concentration src mat (grid_well x (- y)) vt = calc_concentration src mat (grid_well x y) vt"
proof -
  define d where "d = 2 * sqrt (ay mat * ft_to_m (of_int x))"
  define h where "h = width src / 2"
  define v where "v = ft_to_m (of_int y)"
  have "(- v + h) / d = (- (v - h)) / d" by simp
  then have "(- v + h) / d = - ((v - h) / d)" by (simp only: minus_divide_left)
  then have 1: "erf ((- v + h) / d) = - erf ((v - h) / d)"
    by (simp only: erf_minus)
  have "(- v - h) / d = (- (v + h)) / d" by simp
  then have "(- v - h) / d = - ((v + h) / d)" by (simp only: minus_divide_left)
  then have 2: "erf ((- v - h) / d) = - erf ((v + h) / d)"
    by (simp only: erf_minus)
  have "erf ((- v + h) / d) - erf ((- v - h) / d) = erf ((v + h) / d) - erf ((v - h) / d)"
    by (simp only: 1 2)
  then show ?thesis
    by (simp add: calc_concentration_def spread_x_positive_cases spread_y_positive_cases
        spread_y_negative_cases grid_well_def ft_to_m_minus d_def h_def v_def)
qed

section \<open>The sweep over the grid\<close>

text \<open>
  When every grid point evaluates, the two nested loops return the samples in sweep order:
  all of them in \<^verbatim>\<open>graph-final.py\<close>, those of each band in \<^verbatim>\<open>2D_contaminant_plot.py\<close>.
\<close>

lemma sweep_y_final_ok:
  assumes "\<And>y. y \<in> set ys \<Longrightarrow> calc_concentration src mat (grid_well x y) vt = Inr (f x y)"
  shows "sweep_y_final src mat vt x ys st =
     Inr \<lparr>x_data = x_data st @ map (\<lambda>y. x) ys,
          y_data = y_data st @ ys,
          con_data = con_data st @ map (f x) ys,
          tri_data = tri_data st @ map (\<lambda>y. (x, y, f x y)) ys\<rparr>"
  using assms
proof (induction ys arbitrary: st)
  case Nil
  show ?case by simp
next
  case (Cons y ys)
  have "calc_concentration src mat (grid_well x y) vt = Inr (f x y)"
    by (rule Cons.prems) simp
  moreover have "sweep_y_final src mat vt x ys (record_final x y (f x y) st) =
     Inr \<lparr>x_data = x_data (record_final x y (f x y) st) @ map (\<lambda>y. x) ys,
          y_data = y_data (record_final x y (f x y) st) @ ys,
          con_data = con_data (record_final x y (f x y) st) @ map (f x) ys,
          tri_data = tri_data (record_final x y (f x y) st) @ map (\<lambda>y. (x, y, f x y)) ys\<rparr>"
    by (rule Cons.IH) (simp add: Cons.prems)
  ultimately show ?case by (simp add: record_final_def)
qed

lemma sweep_x_final_ok:
  assumes "\<And>x y. x \<in> set xs \<Longrightarrow> y \<in> set (py_range 0 201 1) \<Longrightarrow>
             calc_concentration src mat (grid_well x y) vt = Inr (f x y)"
  shows "sweep_x_final src mat vt xs st =
     Inr \<lparr>x_data = x_data st @ map fst (List.product xs (py_range 0 201 1)),
          y_data = y_data st @ map snd (List.product xs (py_range 0 201 1)),
          con_data = con_data st @ map (\<lambda>(x, y). f x y) (List.product xs (py_range 0 201 1)),
          tri_data = tri_data st @
            map (\<lambda>(x, y). (x, y, f x y)) (List.product xs (py_range 0 201 1))\<rparr>"
  using assms
proof (induction xs arbitrary: st)
  case Nil
  show ?case by simp
next
  case (Cons x xs)
  have row: "sweep_y_final src mat vt x (py_range 0 201 1) st =
     Inr \<lparr>x_data = x_data st @ map (\<lambda>y. x) (py_range 0 201 1),
          y_data = y_data st @ py_range 0 201 1,
          con_data = con_data st @ map (f x) (py_range 0 201 1),
          tri_data = tri_data st @ map (\<lambda>y. (x, y, f x y)) (py_range 0 201 1)\<rparr>"
    by (rule sweep_y_final_ok) (simp add: Cons.prems)
  have rest: "\<And>st'. sweep_x_final src mat vt xs st' =
     Inr \<lparr>x_data = x_data st' @ map fst (List.product xs (py_range 0 201 1)),
          y_data = y_data st' @ map snd (List.product xs (py_range 0 201 1)),
          con_data = con_data st' @ map (\<lambda>(x, y). f x y) (List.product xs (py_range 0 201 1)),
          tri_data = tri_data st' @
            map (\<lambda>(x, y). (x, y, f x y)) (List.product xs (py_range 0 201 1))\<rparr>"
    by (rule Cons.IH) (simp add: Cons.prems)
  show ?case by (simp add: row rest comp_def)
qed

lemma get_data_final_ok:
  assumes "\<And>x y. x \<in> set (py_range 2 450 2) \<Longrightarrow> y \<in> set (py_range 0 201 1) \<Longrightarrow>
             calc_concentration src mat (grid_well x y) vt = Inr (f x y)"
  shows "get_data_final src mat vt =
     Inr ((map fst (List.product (py_range 2 450 2) (py_range 0 201 1)),
           map snd (List.product (py_range 2 450 2) (py_range 0 201 1)),
           map (\<lambda>(x, y). f x y) (List.product (py_range 2 450 2) (py_range 0 201 1))),
          map (\<lambda>(x, y). (x, y, f x y)) (List.product (py_range 2 450 2) (py_range 0 201 1)))"
  unfolding get_data_final_def
  by (simp add: sweep_x_final_ok [where f = f, OF assms])

lemma sweep_y_plot_ok:
  assumes "\<And>y. y \<in> set ys \<Longrightarrow> calc_concentration src mat (grid_well x y) vt = Inr (f x y)"
  shows "sweep_y_plot src mat vt x ys st =
     Inr \<lparr>over_900 = over_900 st @ filter (\<lambda>s. 900 \<le> snd (snd s)) (map (\<lambda>y. (x, y, f x y)) ys),
          over_500 = over_500 st @
            filter (\<lambda>s. 500 \<le> snd (snd s) \<and> snd (snd s) < 900) (map (\<lambda>y. (x, y, f x y)) ys),
          over_300 = over_300 st @
            filter (\<lambda>s. 300 \<le> snd (snd s) \<and> snd (snd s) < 500) (map (\<lambda>y. (x, y, f x y)) ys),
          over_100 = over_100 st @
            filter (\<lambda>s. 100 \<le> snd (snd s) \<and> snd (snd s) < 300) (map (\<lambda>y. (x, y, f x y)) ys)\<rparr>"
  using assms
proof (induction ys arbitrary: st)
  case Nil
  show ?case by simp
next
  case (Cons y ys)
  have c: "calc_concentration src mat (grid_well x y) vt = Inr (f x y)"
    by (rule Cons.prems) simp
  have ih: "\<And>st'. sweep_y_plot src mat vt x ys st' =
     Inr \<lparr>over_900 = over_900 st' @ filter (\<lambda>s. 900 \<le> snd (snd s)) (map (\<lambda>y. (x, y, f x y)) ys),
          over_500 = over_500 st' @
            filter (\<lambda>s. 500 \<le> snd (snd s) \<and> snd (snd s) < 900) (map (\<lambda>y. (x, y, f x y)) ys),
          over_300 = over_300 st' @
            filter (\<lambda>s. 300 \<le> snd (snd s) \<and> snd (snd s) < 500) (map (\<lambda>y. (x, y, f x y)) ys),
          over_100 = over_100 st' @
            filter (\<lambda>s. 100 \<le> snd (snd s) \<and> snd (snd s) < 300) (map (\<lambda>y. (x, y, f x y)) ys)\<rparr>"
    by (rule Cons.IH) (simp add: Cons.prems)
  show ?case by (simp add: c ih record_plot_def)
qed

lemma sweep_x_plot_ok:
  assumes "\<And>x y. x \<in> set xs \<Longrightarrow> y \<in> set (py_range 0 201 1) \<Longrightarrow>
             calc_concentration src mat (grid_well x y) vt = Inr (f x y)"
  shows "sweep_x_plot src mat vt xs st =
     Inr \<lparr>over_900 = over_900 st @ filter (\<lambda>s. 900 \<le> snd (snd s))
            (map (\<lambda>(x, y). (x, y, f x y)) (List.product xs (py_range 0 201 1))),
          over_500 = over_500 st @ filter (\<lambda>s. 500 \<le> snd (snd s) \<and> snd (snd s) < 900)
            (map (\<lambda>(x, y). (x, y, f x y)) (List.product xs (py_range 0 201 1))),
          over_300 = over_300 st @ filter (\<lambda>s. 300 \<le> snd (snd s) \<and> snd (snd s) < 500)
            (map (\<lambda>(x, y). (x, y, f x y)) (List.product xs (py_range 0 201 1))),
          over_100 = over_100 st @ filter (\<lambda>s. 100 \<le> snd (snd s) \<and> snd (snd s) < 300)
            (map (\<lambda>(x, y). (x, y, f x y)) (List.product xs (py_range 0 201 1)))\<rparr>"
  using assms
proof (induction xs arbitrary: st)
  case Nil
  show ?case by simp
next
  case (Cons x xs)
  have row: "sweep_y_plot src mat vt x (py_range 0 201 1) st =
     Inr \<lparr>over_900 = over_900 st @ filter (\<lambda>s. 900 \<le> snd (snd s))
            (map (\<lambda>y. (x, y, f x y)) (py_range 0 201 1)),
          over_500 = over_500 st @ filter (\<lambda>s. 500 \<le> snd (snd s) \<and> snd (snd s) < 900)
            (map (\<lambda>y. (x, y, f x y)) (py_range 0 201 1)),
          over_300 = over_300 st @ filter (\<lambda>s. 300 \<le> snd (snd s) \<and> snd (snd s) < 500)
            (map (\<lambda>y. (x, y, f x y)) (py_range 0 201 1)),
          over_100 = over_100 st @ filter (\<lambda>s. 100 \<le> snd (snd s) \<and> snd (snd s) < 300)
            (map (\<lambda>y. (x, y, f x y)) (py_range 0 201 1))\<rparr>"
    by (rule sweep_y_plot_ok) (simp add: Cons.prems)
  have rest: "\<And>st'. sweep_x_plot src mat vt xs st' =
     Inr \<lparr>over_900 = over_900 st' @ filter (\<lambda>s. 900 \<le> snd (snd s))
            (map (\<lambda>(x, y). (x, y, f x y)) (List.product xs (py_range 0 201 1))),
          over_500 = over_500 st' @ filter (\<lambda>s. 500 \<le> snd (snd s) \<and> snd (snd s) < 900)
            (map (\<lambda>(x, y). (x, y, f x y)) (List.product xs (py_range 0 201 1))),
          over_300 = over_300 st' @ filter (\<lambda>s. 300 \<le> snd (snd s) \<and> snd (snd s) < 500)
            (map (\<lambda>(x, y). (x, y, f x y)) (List.product xs (py_range 0 201 1))),
          over_100 = over_100 st' @ filter (\<lambda>s. 100 \<le> snd (snd s) \<and> snd (snd s) < 300)
            (map (\<lambda>(x, y). (x, y, f x y)) (List.product xs (py_range 0 201 1)))\<rparr>"
    by (rule Cons.IH) (simp add: Cons.prems)
  show ?case by (simp add: row rest comp_def)
qed

lemma get_data_plot_ok:
  assumes "\<And>x y. x \<in> set (py_range 2 450 2) \<Longrightarrow> y \<in> set (py_range 0 201 1) \<Longrightarrow>
             calc_concentration src mat (grid_well x y) vt = Inr (f x y)"
  shows "get_data_plot src mat vt =
     Inr [filter (\<lambda>s. 900 \<le> snd (snd s))
            (map (\<lambda>(x, y). (x, y, f x y)) (List.product (py_range 2 450 2) (py_range 0 201 1))),
          filter (\<lambda>s. 500 \<le> snd (snd s) \<and> snd (snd s) < 900)
            (map (\<lambda>(x, y). (x, y, f x y)) (List.product (py_range 2 450 2) (py_range 0 201 1))),
          filter (\<lambda>s. 300 \<le> snd (snd s) \<and> snd (snd s) < 500)
            (map (\<lambda>(x, y). (x, y, f x y)) (List.product (py_range 2 450 2) (py_range 0 201 1))),
          filter (\<lambda>s. 100 \<le> snd (snd s) \<and> snd (snd s) < 300)
            (map (\<lambda>(x, y). (x, y, f x y)) (List.product (py_range 2 450 2) (py_range 0 201 1)))]"
  unfolding get_data_plot_def
  by (simp add: sweep_x_plot_ok [where f = f, OF assms])

section \<open>Evaluation on the grid\<close>

lemma calc_concentration_range:
  "calc_concentration src mat w vt = Inr r \<Longrightarrow> r = 0 \<or> 0.01 \<le> r"
  using py_float_convert_range
  by (auto simp: calc_concentration_def split: sum.splits)

lemma calc_concentration_grid:
  assumes "0 < ax mat" and "0 < ay mat" and "0 < vt" and "0 < x"
  shows "\<exists>c. calc_concentration src mat (grid_well x y) vt = Inr c"
proof -
  have "0 < ax mat * vt" using assms by simp
  moreover have "0 < ay mat * dx (grid_well x y)"
    using assms by (simp add: grid_well_def ft_to_m_def)
  ultimately show ?thesis
    using calc_concentration_pos [of mat vt "grid_well x y" src] by blast
qed

lemma grid_total:
  assumes "0 < ax mat" and "0 < ay mat" and "0 < vt"
  shows "\<exists>f. \<forall>x y. 0 < x \<longrightarrow> calc_concentration src mat (grid_well x y) vt = Inr (f x y)"
proof (intro exI allI impI)
  fix x y :: int
  assume "0 < x"
  then obtain c where "calc_concentration src mat (grid_well x y) vt = Inr c"
    using calc_concentration_grid [OF assms] by blast
  then show "calc_concentration src mat (grid_well x y) vt =
     Inr (projr (calc_concentration src mat (grid_well x y) vt))"
    by simp
qed

lemma zip_three_maps:
  "zip (map a xs) (zip (map b xs) (map c xs)) = map (\<lambda>p. (a p, b p, c p)) xs"
  by (induction xs) auto

lemma samples_of_reflect:
  assumes "length xd = length yd" and "length yd = length zd"
  shows "samples_of (reflect_over_y_axis_final (xd, yd, zd)) =
     samples_of (xd, yd, zd) @ map (\<lambda>(x, y, c). (x, - y, c)) (samples_of (xd, yd, zd))"
proof -
  have "zip xd (zip (map uminus yd) zd) = map (\<lambda>(x, y, c). (x, - y, c)) (zip xd (zip yd zd))"
    by (simp add: zip_map1 zip_map2 case_prod_beta)
  with assms show ?thesis by simp
qed

lemma grid_keys_member:
  "(x, y) \<in> set (List.product (py_range 2 450 2) (py_range 0 201 1)) \<longleftrightarrow>
     even x \<and> 2 \<le> x \<and> x \<le> 448 \<and> 0 \<le> y \<and> y \<le> 200"
  by (simp add: py_range_x py_range_y)

lemma py_range_x_pos: "x \<in> set (py_range 2 450 2) \<Longrightarrow> 0 < x"
  by (simp add: py_range_x)

section \<open>The sampled field\<close>

text \<open>
  C3, amended. With positive dispersivities and travel distance, \<^verbatim>\<open>get_data\<close> of
  \<^verbatim>\<open>graph-final.py\<close> evaluates every grid point: its triples are keyed, in sweep order, by
  the feet coordinates of every even x in 2..448 and every y in 0..200, each carries the
  result of \<^verbatim>\<open>calc_concentration\<close> at the point converted to meters, and the three columns
  hold the same samples. After \<^verbatim>\<open>reflect_over_y_axis\<close> the columns hold the half plane
  followed by its mirror image, so that every even x in 2..448 and every y in -200..200 has
  a sample, every sample lies on that grid, and each carries the result of
  \<^verbatim>\<open>calc_concentration\<close> at its own point.
\<close>

theorem get_data_final_field:
  assumes "0 < ax mat" and "0 < ay mat" and "0 < vt"
  shows "\<exists>cols tri.
     get_data_final src mat vt = Inr (cols, tri) \<and>
     sample_keys tri = List.product (py_range 2 450 2) (py_range 0 201 1) \<and>
     (\<forall>(x, y, c)\<in>set tri. calc_concentration src mat (grid_well x y) vt = Inr c) \<and>
     samples_of cols = tri \<and>
     samples_of (get_all_coord_final cols) = tri @ map (\<lambda>(x, y, c). (x, - y, c)) tri \<and>
     (\<forall>x y. even x \<and> 2 \<le> x \<and> x \<le> 448 \<and> - 200 \<le> y \<and> y \<le> 200 \<longrightarrow>
        (\<exists>c. (x, y, c) \<in> set (samples_of (get_all_coord_final cols)) \<and>
             calc_concentration src mat (grid_well x y) vt = Inr c)) \<and>
     (\<forall>(x, y, c)\<in>set (samples_of (get_all_coord_final cols)).
        even x \<and> 2 \<le> x \<and> x \<le> 448 \<and> - 200 \<le> y \<and> y \<le> 200 \<and>
        calc_concentration src mat (grid_well x y) vt = Inr c)"
proof -
  define P where "P = List.product (py_range 2 450 2) (py_range 0 201 1)"
  obtain f where f: "\<And>x y. 0 < x \<Longrightarrow> calc_concentration src mat (grid_well x y) vt = Inr (f x y)"
    using grid_total [OF assms] by blast
  define tri where "tri = map (\<lambda>(x, y). (x, y, f x y)) P"
  define cols where "cols = (map fst P, map snd P, map (\<lambda>(x, y). f x y) P)"
  have P: "(x, y) \<in> set P \<longleftrightarrow> even x \<and> 2 \<le> x \<and> x \<le> 448 \<and> 0 \<le> y \<and> y \<le> 200" for x y
    unfolding P_def by (rule grid_keys_member)
  have 1: "get_data_final src mat vt = Inr (cols, tri)"
    unfolding cols_def tri_def P_def
    by (rule get_data_final_ok) (simp add: f py_range_x_pos)
  have 2: "sample_keys tri = P"
    by (simp add: sample_keys_def tri_def comp_def case_prod_beta)
  have tri: "(x, y, c) \<in> set tri \<longleftrightarrow> (x, y) \<in> set P \<and> c = f x y" for x y c
    by (auto simp: tri_def)
  have 3: "\<forall>(x, y, c)\<in>set tri. calc_concentration src mat (grid_well x y) vt = Inr c"
    using f by (auto simp: tri P)
  have 4: "samples_of cols = tri"
    by (simp add: cols_def tri_def zip_three_maps case_prod_beta)
  have "samples_of (reflect_over_y_axis_final cols) =
        samples_of cols @ map (\<lambda>(x, y, c). (x, - y, c)) (samples_of cols)"
    unfolding cols_def by (rule samples_of_reflect) simp_all
  then have 5: "samples_of (get_all_coord_final cols) = tri @ map (\<lambda>(x, y, c). (x, - y, c)) tri"
    by (simp add: get_all_coord_final_def 4)
  have mem: "(x, y, c) \<in> set (samples_of (get_all_coord_final cols)) \<longleftrightarrow>
             (x, y, c) \<in> set tri \<or> (x, - y, c) \<in> set tri" for x y c
    by (force simp: 5 image_iff)
  have 6: "\<exists>c. (x, y, c) \<in> set (samples_of (get_all_coord_final cols)) \<and>
               calc_concentration src mat (grid_well x y) vt = Inr c"
    if g: "even x \<and> 2 \<le> x \<and> x \<le> 448 \<and> - 200 \<le> y \<and> y \<le> 200" for x y
  proof (cases "0 \<le> y")
    case True
    with g have "(x, y, f x y) \<in> set tri" by (simp add: tri P)
    moreover have "calc_concentration src mat (grid_well x y) vt = Inr (f x y)"
      using g by (intro f) simp
    ultimately show ?thesis using mem by blast
  next
    case False
    with g have "(x, - y, f x (- y)) \<in> set tri" by (simp add: tri P)
    moreover have "calc_concentration src mat (grid_well x (- y)) vt = Inr (f x (- y))"
      using g by (intro f) simp
    then have "calc_concentration src mat (grid_well x y) vt = Inr (f x (- y))"
      by (simp only: calc_concentration_mirror)
    ultimately show ?thesis using mem by blast
  qed
  have 7: "even x \<and> 2 \<le> x \<and> x \<le> 448 \<and> - 200 \<le> y \<and> y \<le> 200 \<and>
           calc_concentration src mat (grid_well x y) vt = Inr c"
    if "(x, y, c) \<in> set (samples_of (get_all_coord_final cols))" for x y c
  proof -
    from that consider "(x, y, c) \<in> set tri" | "(x, - y, c) \<in> set tri" using mem by blast
    then show ?thesis
    proof cases
      case 1
      then have "(x, y) \<in> set P" "c = f x y" by (simp_all add: tri)
      then show ?thesis using f [of x y] by (simp add: P)
    next
      case 2
      then have p: "(x, - y) \<in> set P" "c = f x (- y)" by (simp_all add: tri)
      then have "calc_concentration src mat (grid_well x (- y)) vt = Inr c"
        using f [of x "- y"] by (simp add: P)
      then have "calc_concentration src mat (grid_well x y) vt = Inr c"
        by (simp only: calc_concentration_mirror)
      then show ?thesis using p by (simp add: P)
    qed
  qed
  from 7 have 8: "\<forall>(x, y, c)\<in>set (samples_of (get_all_coord_final cols)).
        even x \<and> 2 \<le> x \<and> x \<le> 448 \<and> - 200 \<le> y \<and> y \<le> 200 \<and>
        calc_concentration src mat (grid_well x y) vt = Inr c"
    by blast
  from 6 have 9: "\<forall>x y. even x \<and> 2 \<le> x \<and> x \<le> 448 \<and> - 200 \<le> y \<and> y \<le> 200 \<longrightarrow>
        (\<exists>c. (x, y, c) \<in> set (samples_of (get_all_coord_final cols)) \<and>
             calc_concentration src mat (grid_well x y) vt = Inr c)"
    by blast
  show ?thesis
    using 1 2 3 4 5 8 9 unfolding P_def by blast
qed

text \<open>The parameters of \<^verbatim>\<open>main\<close>, and the point 50 ft downstream, 7 ft to the other side.\<close>

theorem get_data_final_field_witness:
  "0 < ax material_1 \<and> 0 < ay material_1 \<and> 0 < velocity_time \<and>
   (\<exists>cols tri.
      get_data_final source_1 material_1 velocity_time = Inr (cols, tri) \<and>
      sample_keys tri = List.product (py_range 2 450 2) (py_range 0 201 1) \<and>
      samples_of cols = tri \<and>
      (\<exists>c. (50, - 7, c) \<in> set (samples_of (get_all_coord_final cols)) \<and>
           calc_concentration source_1 material_1 (grid_well 50 (- 7)) velocity_time = Inr c))"
proof -
  have h: "0 < ax material_1" "0 < ay material_1" "0 < velocity_time"
    by (simp_all add: material_1_def velocity_time_def ft_to_m_def)
  obtain cols tri where
    1: "get_data_final source_1 material_1 velocity_time = Inr (cols, tri)" and
    2: "sample_keys tri = List.product (py_range 2 450 2) (py_range 0 201 1)" and
    4: "samples_of cols = tri" and
    6: "\<forall>x y. even x \<and> 2 \<le> x \<and> x \<le> 448 \<and> - 200 \<le> y \<and> y \<le> 200 \<longrightarrow>
        (\<exists>c. (x, y, c) \<in> set (samples_of (get_all_coord_final cols)) \<and>
             calc_concentration source_1 material_1 (grid_well x y) velocity_time = Inr c)"
    using get_data_final_field [OF h, of source_1] by (elim exE conjE) (rule that)
  have "even (50::int) \<and> (2::int) \<le> 50 \<and> (50::int) \<le> 448 \<and> - 200 \<le> (- 7::int) \<and> (- 7::int) \<le> 200"
    by simp
  with 6 [rule_format, of 50 "- 7"]
  have "\<exists>c. (50, - 7, c) \<in> set (samples_of (get_all_coord_final cols)) \<and>
      calc_concentration source_1 material_1 (grid_well 50 (- 7)) velocity_time = Inr c"
    by (elim conjE) simp
  then have "get_data_final source_1 material_1 velocity_time = Inr (cols, tri) \<and>
      sample_keys tri = List.product (py_range 2 450 2) (py_range 0 201 1) \<and>
      samples_of cols = tri \<and>
      (\<exists>c. (50, - 7, c) \<in> set (samples_of (get_all_coord_final cols)) \<and>
           calc_concentration source_1 material_1 (grid_well 50 (- 7)) velocity_time = Inr c)"
    using 1 2 4 by (intro conjI)
  then have "\<exists>cols tri.
      get_data_final source_1 material_1 velocity_time = Inr (cols, tri) \<and>
      sample_keys tri = List.product (py_range 2 450 2) (py_range 0 201 1) \<and>
      samples_of cols = tri \<and>
      (\<exists>c. (50, - 7, c) \<in> set (samples_of (get_all_coord_final cols)) \<and>
           calc_concentration source_1 material_1 (grid_well 50 (- 7)) velocity_time = Inr c)"
    by (intro exI)
  with h show ?thesis by (intro conjI)
qed

section \<open>The band lists of \<^verbatim>\<open>2D_contaminant_plot.py\<close>\<close>

lemma reflect_member:
  "(x, y, c) \<in> set (reflect_over_y_axis_plot d) \<longleftrightarrow> (x, y, c) \<in> set d \<or> (x, - y, c) \<in> set d"
  by (force simp: reflect_over_y_axis_plot_def image_iff)

lemma in_all_data_plot:
  assumes f: "\<And>x y. x \<in> set (py_range 2 450 2) \<Longrightarrow> y \<in> set (py_range 0 201 1) \<Longrightarrow>
             calc_concentration src mat (grid_well x y) vt = Inr (f x y)"
    and a: "all_data_plot src mat vt = Inr all_data"
    and d: "d \<in> set all_data"
    and s: "(x, y, c) \<in> set d"
  shows "100 \<le> c \<and> x \<in> set (py_range 2 450 2) \<and>
         ((y \<in> set (py_range 0 201 1) \<and> c = f x y) \<or>
          (- y \<in> set (py_range 0 201 1) \<and> c = f x (- y)))"
proof -
  note g = get_data_plot_ok [where f = f, OF f]
  from a d obtain b where b: "d = reflect_over_y_axis_plot b"
    and "b = filter (\<lambda>s. 900 \<le> snd (snd s))
            (map (\<lambda>(x, y). (x, y, f x y)) (List.product (py_range 2 450 2) (py_range 0 201 1))) \<or>
         b = filter (\<lambda>s. 500 \<le> snd (snd s) \<and> snd (snd s) < 900)
            (map (\<lambda>(x, y). (x, y, f x y)) (List.product (py_range 2 450 2) (py_range 0 201 1))) \<or>
         b = filter (\<lambda>s. 300 \<le> snd (snd s) \<and> snd (snd s) < 500)
            (map (\<lambda>(x, y). (x, y, f x y)) (List.product (py_range 2 450 2) (py_range 0 201 1))) \<or>
         b = filter (\<lambda>s. 100 \<le> snd (snd s) \<and> snd (snd s) < 300)
            (map (\<lambda>(x, y). (x, y, f x y)) (List.product (py_range 2 450 2) (py_range 0 201 1)))"
    by (auto simp: all_data_plot_def g get_all_coord_plot_def)
  then have sub: "\<And>x y c. (x, y, c) \<in> set b \<Longrightarrow>
      100 \<le> c \<and> x \<in> set (py_range 2 450 2) \<and> y \<in> set (py_range 0 201 1) \<and> c = f x y"
    by auto
  from s b have "(x, y, c) \<in> set b \<or> (x, - y, c) \<in> set b"
    by (simp add: reflect_member)
  then show ?thesis using sub by blast
qed

lemma scan_list_plot_None:
  "scan_list_plot x y d = None \<longleftrightarrow> (\<forall>lst\<in>set d. \<not> issubset x y lst)"
  by (induction d) auto

lemma get_specific_concentration_plot_None:
  "get_specific_concentration_plot x y data = None \<longleftrightarrow>
     (\<forall>d\<in>set data. \<forall>lst\<in>set d. \<not> issubset x y lst)"
proof (induction data)
  case Nil
  show ?case by simp
next
  case (Cons d ds)
  have "get_specific_concentration_plot x y (d # ds) = None \<longleftrightarrow>
        scan_list_plot x y d = None \<and> get_specific_concentration_plot x y ds = None"
    by (simp split: option.splits)
  then show ?case by (simp add: scan_list_plot_None Cons.IH)
qed

lemma calc_concentration_2:
  "calc_concentration source_2 material_1 (grid_well 6 0) velocity_time_2 =
     Inr (py_float (convert_to_volume source_2 (2 * erf 1)))"
proof -
  have p: "0 < ax material_1 * velocity_time_2" "0 < ay material_1 * dx (grid_well 6 0)"
    by (simp_all add: material_1_def velocity_time_2_def grid_well_def ft_to_m_def)
  have a: "(dx (grid_well 6 0) - velocity_time_2) / (2 * sqrt (ax material_1 * velocity_time_2)) = 0"
    by (simp add: grid_well_def velocity_time_2_def)
  have "ay material_1 * dx (grid_well 6 0) = ft_to_m 6 * ft_to_m 6"
    by (simp add: material_1_def grid_well_def)
  then have "sqrt (ay material_1 * dx (grid_well 6 0)) = \<bar>ft_to_m 6\<bar>"
    by (simp only: real_sqrt_abs2)
  then have r: "sqrt (ay material_1 * dx (grid_well 6 0)) = ft_to_m 6"
    by (simp add: ft_to_m_def)
  have b: "(dy (grid_well 6 0) + width source_2 / 2) /
           (2 * sqrt (ay material_1 * dx (grid_well 6 0))) = 1"
    unfolding r by (simp add: grid_well_def source_2_def ft_to_m_def)
  have c: "(dy (grid_well 6 0) - width source_2 / 2) /
           (2 * sqrt (ay material_1 * dx (grid_well 6 0))) = - 1"
    unfolding r by (simp add: grid_well_def source_2_def ft_to_m_def)
  have "erfc 0 * (erf 1 - erf (- 1)) = 2 * erf 1"
    by (simp add: erfc_zero erf_minus)
  then show ?thesis
    by (simp only: calc_concentration_pos [OF p] a b c)
qed

lemma value_2_bounds:
  "3 \<le> py_float (convert_to_volume source_2 (2 * erf 1)) \<and>
   py_float (convert_to_volume source_2 (2 * erf 1)) \<le> 61"
proof -
  define c where "c = concentration source_2 / 4 * (2 * erf 1)"
  define r :: real where "r = of_int (round_half_even (c * 100))"
  have "c = 10 * erf 1" by (simp add: c_def source_2_def)
  with erf_one_bounds have cb: "10 / 3 \<le> c" "c \<le> 60" by simp_all
  then have "\<not> c \<le> 0.01" by simp
  then have v: "py_float (convert_to_volume source_2 (2 * erf 1)) = r / 100"
    unfolding c_def r_def by (simp only: py_float_convert if_False)
  have "\<bar>r - c * 100\<bar> \<le> 1 / 2" unfolding r_def by (rule round_half_even_near)
  then have "c * 100 - 1 / 2 \<le> r" "r \<le> c * 100 + 1 / 2" by linarith+
  with cb have "3 \<le> r / 100" "r / 100 \<le> 61" by simp_all
  then show ?thesis by (simp only: v)
qed

lemma no_sample_2:
  assumes a: "all_data_plot source_2 material_1 velocity_time_2 = Inr all_data"
    and d: "d \<in> set all_data"
  shows "(6, 0, c) \<notin> set d"
proof
  assume s: "(6, 0, c) \<in> set d"
  obtain f where f: "\<And>x y. 0 < x \<Longrightarrow>
      calc_concentration source_2 material_1 (grid_well x y) velocity_time_2 = Inr (f x y)"
    using grid_total [of material_1 velocity_time_2 source_2]
    by (auto simp: material_1_def velocity_time_2_def ft_to_m_def)
  have "100 \<le> c \<and> c = f 6 0"
    using in_all_data_plot [where f = f, OF _ a d s] f by (auto simp: py_range_x_pos)
  moreover have "f 6 0 = py_float (convert_to_volume source_2 (2 * erf 1))"
    using f [of 6 0] calc_concentration_2 by simp
  ultimately show False using value_2_bounds by simp
qed

lemma all_data_plot_2:
  "\<exists>all_data. all_data_plot source_2 material_1 velocity_time_2 = Inr all_data"
proof -
  obtain f where f: "\<And>x y. 0 < x \<Longrightarrow>
      calc_concentration source_2 material_1 (grid_well x y) velocity_time_2 = Inr (f x y)"
    using grid_total [of material_1 velocity_time_2 source_2]
    by (auto simp: material_1_def velocity_time_2_def ft_to_m_def)
  show ?thesis
    unfolding all_data_plot_def
    by (simp add: get_data_plot_ok [where f = f] f py_range_x_pos)
qed

text \<open>
  C3 as stated fails for \<^verbatim>\<open>2D_contaminant_plot.py\<close>, whose sweep keeps a sample only when
  its concentration is at least 100. For the second set of parameters the grid point
  (6, 0) has a concentration between 3 and 61, and the reflected band lists hold no sample
  with these coordinates.
\<close>

theorem all_data_plot_misses_grid_point:
  "(case all_data_plot source_2 material_1 velocity_time_2 of
      Inl e \<Rightarrow> False
    | Inr all_data \<Rightarrow> (6, 0) \<notin> set (sample_keys (concat all_data)))"
proof -
  obtain all_data where a: "all_data_plot source_2 material_1 velocity_time_2 = Inr all_data"
    using all_data_plot_2 by blast
  have "(6, 0) \<notin> set (sample_keys (concat all_data))"
    using no_sample_2 [OF a] by (auto simp: sample_keys_def)
  then show ?thesis by (simp add: a)
qed

text \<open>
  C8 as stated fails for \<^verbatim>\<open>2D_contaminant_plot.py\<close>: for the same parameters the lookup of
  the grid point (6, 0) finds nothing and 0 is printed, while \<^verbatim>\<open>calc_concentration\<close> at
  the point is not 0.
\<close>

theorem main_plot_misses_concentration:
  "main_plot source_2 material_1 velocity_time_2 6 0 = Inr 0 \<and>
   calc_concentration source_2 material_1 (grid_well 6 0) velocity_time_2 \<noteq> Inr 0"
proof -
  obtain all_data where a: "all_data_plot source_2 material_1 velocity_time_2 = Inr all_data"
    using all_data_plot_2 by blast
  obtain f where f: "\<And>x y. 0 < x \<Longrightarrow>
      calc_concentration source_2 material_1 (grid_well x y) velocity_time_2 = Inr (f x y)"
    using grid_total [of material_1 velocity_time_2 source_2]
    by (auto simp: material_1_def velocity_time_2_def ft_to_m_def)
  have "\<not> issubset 6 0 lst" if d: "d \<in> set all_data" and l: "lst \<in> set d" for d lst
  proof
    assume i: "issubset 6 0 lst"
    obtain x y c where lst: "lst = (x, y, c)" by (cases lst) auto
    have m: "100 \<le> c \<and> x \<in> set (py_range 2 450 2)"
      using in_all_data_plot [where f = f, OF _ a d l [unfolded lst]] f
      by (auto simp: py_range_x_pos)
    then have "2 \<le> x" by (simp add: py_range_x)
    with i m have "x = 6 \<and> y = 0" by (auto simp: issubset_def py_in_def lst)
    with l lst no_sample_2 [OF a d] show False by blast
  qed
  then have "get_specific_concentration_plot 6 0 all_data = None"
    by (simp add: get_specific_concentration_plot_None)
  then have "main_plot source_2 material_1 velocity_time_2 6 0 = Inr 0"
    by (simp add: main_plot_def a user_con_plot_def)
  moreover have "calc_concentration source_2 material_1 (grid_well 6 0) velocity_time_2 \<noteq> Inr 0"
    using calc_concentration_2 value_2_bounds by simp
  ultimately show ?thesis by blast
qed

section \<open>Range of the concentrations\<close>

text \<open>
  C5. With positive dispersivities and travel distance, \<^verbatim>\<open>calc_concentration\<close> returns a
  number at every grid point with even x in 2..448 and y in 0..200, and that number is 0 or
  strictly positive; the same holds of every concentration in the reflected field of
  either script.
\<close>

theorem field_concentrations_nonnegative:
  assumes "0 < ax mat" and "0 < ay mat" and "0 < vt"
  shows "(\<forall>x y. even x \<and> 2 \<le> x \<and> x \<le> 448 \<and> 0 \<le> y \<and> y \<le> 200 \<longrightarrow>
            (\<exists>c. calc_concentration src mat (grid_well x y) vt = Inr c \<and> (c = 0 \<or> 0 < c))) \<and>
         (\<exists>all_data. all_data_final src mat vt = Inr all_data \<and>
            (\<forall>(x, y, c)\<in>set (samples_of all_data). c = 0 \<or> 0 < c)) \<and>
         (\<exists>all_data. all_data_plot src mat vt = Inr all_data \<and>
            (\<forall>d\<in>set all_data. \<forall>(x, y, c)\<in>set d. c = 0 \<or> 0 < c))"
proof -
  obtain f where f: "\<And>x y. 0 < x \<Longrightarrow> calc_concentration src mat (grid_well x y) vt = Inr (f x y)"
    using grid_total [OF assms] by blast
  have r: "f x y = 0 \<or> 0 < f x y" if "0 < x" for x y
    using calc_concentration_range [OF f [OF that, of y]] by auto
  have 1: "\<forall>x y. even x \<and> 2 \<le> x \<and> x \<le> 448 \<and> 0 \<le> y \<and> y \<le> 200 \<longrightarrow>
            (\<exists>c. calc_concentration src mat (grid_well x y) vt = Inr c \<and> (c = 0 \<or> 0 < c))"
  proof (intro allI impI)
    fix x y :: int
    assume "even x \<and> 2 \<le> x \<and> x \<le> 448 \<and> 0 \<le> y \<and> y \<le> 200"
    then have "0 < x" by simp
    then show "\<exists>c. calc_concentration src mat (grid_well x y) vt = Inr c \<and> (c = 0 \<or> 0 < c)"
      using f [of x y] r [of x y] by blast
  qed
  define P where "P = List.product (py_range 2 450 2) (py_range 0 201 1)"
  define cols where "cols = (map fst P, map snd P, map (\<lambda>(x, y). f x y) P)"
  have g: "get_data_final src mat vt = Inr (cols, map (\<lambda>(x, y). (x, y, f x y)) P)"
    unfolding cols_def P_def
    by (rule get_data_final_ok) (simp add: f py_range_x_pos)
  have s: "samples_of (get_all_coord_final cols) =
           samples_of cols @ map (\<lambda>(x, y, c). (x, - y, c)) (samples_of cols)"
    unfolding cols_def get_all_coord_final_def by (rule samples_of_reflect) simp_all
  have c: "samples_of cols = map (\<lambda>p. (fst p, snd p, f (fst p) (snd p))) P"
    by (simp add: cols_def zip_three_maps case_prod_beta)
  have "c = 0 \<or> 0 < c" if "(x, y, c) \<in> set (samples_of (get_all_coord_final cols))" for x y c
  proof -
    from that obtain p where "p \<in> set P" "c = f (fst p) (snd p)"
      by (auto simp: s c)
    moreover obtain a b where "p = (a, b)" by (cases p) auto
    ultimately have "0 < fst p" "c = f (fst p) (snd p)"
      by (simp_all add: P_def py_range_x)
    then show ?thesis using r by simp
  qed
  then have 2: "\<exists>all_data. all_data_final src mat vt = Inr all_data \<and>
            (\<forall>(x, y, c)\<in>set (samples_of all_data). c = 0 \<or> 0 < c)"
    by (auto simp: all_data_final_def g)
  obtain all_data where a: "all_data_plot src mat vt = Inr all_data"
    by (simp add: all_data_plot_def get_data_plot_ok [where f = f] f py_range_x_pos)
  have "c = 0 \<or> 0 < c" if "d \<in> set all_data" "(x, y, c) \<in> set d" for d x y c
    using in_all_data_plot [where f = f, OF _ a that] f by (auto simp: py_range_x_pos)
  then have 3: "\<exists>all_data. all_data_plot src mat vt = Inr all_data \<and>
            (\<forall>d\<in>set all_data. \<forall>(x, y, c)\<in>set d. c = 0 \<or> 0 < c)"
    using a by blast
  from 1 2 3 show ?thesis by blast
qed

text \<open>The parameters of \<^verbatim>\<open>main\<close>, and the point 50 ft downstream on the axis.\<close>

theorem field_concentrations_nonnegative_witness:
  "0 < ax material_1 \<and> 0 < ay material_1 \<and> 0 < velocity_time \<and>
   (\<exists>c. calc_concentration source_1 material_1 (grid_well 50 0) velocity_time = Inr c \<and>
        (c = 0 \<or> 0 < c)) \<and>
   (\<exists>all_data. all_data_final source_1 material_1 velocity_time = Inr all_data) \<and>
   (\<exists>all_data. all_data_plot source_1 material_1 velocity_time = Inr all_data)"
proof -
  have h: "0 < ax material_1" "0 < ay material_1" "0 < velocity_time"
    by (simp_all add: material_1_def velocity_time_def ft_to_m_def)
  have g: "even (50::int) \<and> (2::int) \<le> 50 \<and> (50::int) \<le> 448 \<and> (0::int) \<le> 0 \<and> (0::int) \<le> 200"
    by simp
  from field_concentrations_nonnegative [OF h, of source_1] g h show ?thesis by blast
qed

section \<open>Mirror symmetry\<close>

text \<open>
  C4. In the reflected field a sample \<open>(x, y, c)\<close> is present exactly when \<open>(x, -y, c)\<close>
  is, and every sample \<open>(x, y, c)\<close> of the half plane has its mirror image \<open>(x, -y, c)\<close>
  in the field: for the band lists of \<^verbatim>\<open>2D_contaminant_plot.py\<close>, and for the columns of
  \<^verbatim>\<open>graph-final.py\<close> when the three columns have one length, as those of \<^verbatim>\<open>get_data\<close>
  have.
\<close>

theorem reflect_over_y_axis_symmetric:
  "((x, y, c) \<in> set (reflect_over_y_axis_plot d) \<longleftrightarrow>
      (x, - y, c) \<in> set (reflect_over_y_axis_plot d)) \<and>
   ((x, y, c) \<in> set d \<longrightarrow> (x, - y, c) \<in> set (reflect_over_y_axis_plot d)) \<and>
   (length xd = length yd \<and> length yd = length zd \<longrightarrow>
      ((x, y, c) \<in> set (samples_of (reflect_over_y_axis_final (xd, yd, zd))) \<longleftrightarrow>
         (x, - y, c) \<in> set (samples_of (reflect_over_y_axis_final (xd, yd, zd)))) \<and>
      ((x, y, c) \<in> set (samples_of (xd, yd, zd)) \<longrightarrow>
         (x, - y, c) \<in> set (samples_of (reflect_over_y_axis_final (xd, yd, zd)))))"
proof -
  have m: "(x, y, c) \<in> set (e @ map (\<lambda>(x, y, c). (x, - y, c)) e) \<longleftrightarrow>
           (x, y, c) \<in> set e \<or> (x, - y, c) \<in> set e" for x y c and e :: "sample list"
    by (force simp: image_iff)
  have 1: "(x, y, c) \<in> set (reflect_over_y_axis_plot d) \<longleftrightarrow>
           (x, - y, c) \<in> set (reflect_over_y_axis_plot d)"
    using m [of x y c d] m [of x "- y" c d] by (auto simp: reflect_over_y_axis_plot_def)
  have 2: "(x, y, c) \<in> set d \<longrightarrow> (x, - y, c) \<in> set (reflect_over_y_axis_plot d)"
    using m [of x "- y" c d] by (simp add: reflect_over_y_axis_plot_def)
  have 3: "((x, y, c) \<in> set (samples_of (reflect_over_y_axis_final (xd, yd, zd))) \<longleftrightarrow>
         (x, - y, c) \<in> set (samples_of (reflect_over_y_axis_final (xd, yd, zd)))) \<and>
      ((x, y, c) \<in> set (samples_of (xd, yd, zd)) \<longrightarrow>
         (x, - y, c) \<in> set (samples_of (reflect_over_y_axis_final (xd, yd, zd))))"
    if l: "length xd = length yd \<and> length yd = length zd"
  proof -
    have r: "samples_of (reflect_over_y_axis_final (xd, yd, zd)) =
       samples_of (xd, yd, zd) @ map (\<lambda>(x, y, c). (x, - y, c)) (samples_of (xd, yd, zd))"
      using l by (intro samples_of_reflect) simp_all
    show ?thesis
      unfolding r
      using m [of x y c "samples_of (xd, yd, zd)"] m [of x "- y" c "samples_of (xd, yd, zd)"]
      by auto
  qed
  from 1 2 3 show ?thesis by blast
qed

text \<open>Two samples of the half plane, as a band list and as columns.\<close>

theorem reflect_over_y_axis_symmetric_witness:
  "(2, - 5, 950) \<in> set (reflect_over_y_axis_plot [(2, 5, 950), (4, 0, 910)]) \<and>
   length [2, 4 :: int] = length [5, 0 :: int] \<and> length [5, 0 :: int] = length [950, 910 :: real] \<and>
   (2, - 5, 950) \<in> set (samples_of (reflect_over_y_axis_final ([2, 4], [5, 0], [950, 910])))"
proof -
  have a: "(2, 5, 950) \<in> set [(2, 5, 950), (4, 0, 910 :: real) :: sample]" by simp
  have l: "length [2, 4 :: int] = length [5, 0 :: int] \<and>
           length [5, 0 :: int] = length [950, 910 :: real]" by simp
  have b: "(2, 5, 950) \<in> set (samples_of ([2, 4], [5, 0], [950, 910]))" by simp
  from reflect_over_y_axis_symmetric
    [of 2 5 950 "[(2, 5, 950), (4, 0, 910)]" "[2, 4]" "[5, 0]" "[950, 910]"] a l b
  show ?thesis by blast
qed

section \<open>Looking a point up\<close>

lemma lookup_final_miss:
  "(x, \<bar>y\<bar>) \<notin> set (sample_keys tri) \<Longrightarrow> get_specific_concentration_final x y tri u = u"
  by (induction tri arbitrary: u) (auto simp: sample_keys_def)

lemma lookup_final_hit:
  "distinct (sample_keys tri) \<Longrightarrow> (x, \<bar>y\<bar>, c) \<in> set tri \<Longrightarrow>
   get_specific_concentration_final x y tri u = c"
proof (induction tri arbitrary: u)
  case Nil
  then show ?case by simp
next
  case (Cons p ps)
  obtain px py pc where p: "p = (px, py, pc)" by (cases p) auto
  from Cons.prems have d: "(px, py) \<notin> set (sample_keys ps)" "distinct (sample_keys ps)"
    by (simp_all add: sample_keys_def p)
  show ?case
  proof (cases "x = px \<and> \<bar>y\<bar> = py")
    case True
    with d have miss: "(x, \<bar>y\<bar>) \<notin> set (sample_keys ps)" by simp
    then have "(x, \<bar>y\<bar>, c) \<notin> set ps" by (force simp: sample_keys_def)
    with Cons.prems True p have "c = pc" by auto
    with True p lookup_final_miss [OF miss] show ?thesis by simp
  next
    case False
    with Cons.prems p have "(x, \<bar>y\<bar>, c) \<in> set ps" by auto
    with False p Cons.IH [OF d(2)] show ?thesis by auto
  qed
qed

lemma accepted_point_on_grid:
  "accepts_x x \<Longrightarrow> accepts_y y \<Longrightarrow>
   even x \<and> 2 \<le> x \<and> x \<le> 448 \<and> - 200 \<le> y \<and> y \<le> 200"
  by (auto simp: accepts_x_def accepts_y_def)

text \<open>
  C8, amended. In \<^verbatim>\<open>graph-final.py\<close>, with positive dispersivities and travel distance, the
  scan of \<^verbatim>\<open>get_specific_concentration\<close> over the triples of the half plane yields, for
  every even x in 2..448 and every y in -200..200, what \<^verbatim>\<open>calc_concentration\<close> returns at
  the point converted to meters. (The prompt before the scan accepts x up to 400 only.)
\<close>

theorem main_final_consistent:
  assumes "0 < ax mat" and "0 < ay mat" and "0 < vt"
    and "even x" and "2 \<le> x" and "x \<le> 448" and "- 200 \<le> y" and "y \<le> 200"
  shows "main_final src mat vt x y = calc_concentration src mat (grid_well x y) vt"
proof -
  obtain f where f: "\<And>x y. 0 < x \<Longrightarrow> calc_concentration src mat (grid_well x y) vt = Inr (f x y)"
    using grid_total [OF assms(1-3)] by blast
  define P where "P = List.product (py_range 2 450 2) (py_range 0 201 1)"
  define tri where "tri = map (\<lambda>(x, y). (x, y, f x y)) P"
  have g: "get_data_final src mat vt =
           Inr ((map fst P, map snd P, map (\<lambda>(x, y). f x y) P), tri)"
    unfolding tri_def P_def
    by (rule get_data_final_ok) (simp add: f py_range_x_pos)
  have k: "sample_keys tri = P"
    by (simp add: sample_keys_def tri_def comp_def case_prod_beta)
  have "distinct P"
    unfolding P_def by (intro distinct_product distinct_py_range) simp_all
  then have dk: "distinct (sample_keys tri)" by (simp only: k)
  have "0 \<le> \<bar>y\<bar> \<and> \<bar>y\<bar> \<le> 200" using assms(7,8) by linarith
  then have "(x, \<bar>y\<bar>) \<in> set P"
    using assms(4-6) unfolding P_def by (simp add: py_range_x py_range_y)
  then have "(x, \<bar>y\<bar>, f x \<bar>y\<bar>) \<in> set tri" by (force simp: tri_def)
  then have "get_specific_concentration_final x y tri 0 = f x \<bar>y\<bar>"
    by (rule lookup_final_hit [OF dk])
  then have m: "main_final src mat vt x y = Inr (f x \<bar>y\<bar>)"
    by (simp add: main_final_def g)
  have "calc_concentration src mat (grid_well x \<bar>y\<bar>) vt = Inr (f x \<bar>y\<bar>)"
    using assms(5) by (intro f) simp
  moreover have "calc_concentration src mat (grid_well x \<bar>y\<bar>) vt =
                 calc_concentration src mat (grid_well x y) vt"
    by (cases "0 \<le> y") (simp_all add: abs_if calc_concentration_mirror)
  ultimately show ?thesis using m by simp
qed

text \<open>The parameters of \<^verbatim>\<open>main\<close>, and the point 50 ft downstream, 7 ft to the other side.\<close>

theorem main_final_consistent_witness:
  "0 < ax material_1 \<and> 0 < ay material_1 \<and> 0 < velocity_time \<and>
   even (50::int) \<and> (2::int) \<le> 50 \<and> (50::int) \<le> 448 \<and> - 200 \<le> (- 7::int) \<and> (- 7::int) \<le> 200 \<and>
   main_final source_1 material_1 velocity_time 50 (- 7) =
     calc_concentration source_1 material_1 (grid_well 50 (- 7)) velocity_time"
proof -
  have h: "0 < ax material_1" "0 < ay material_1" "0 < velocity_time"
    by (simp_all add: material_1_def velocity_time_def ft_to_m_def)
  have g: "even (50::int)" "(2::int) \<le> 50" "(50::int) \<le> 448" "- 200 \<le> (- 7::int)"
    "(- 7::int) \<le> 200"
    by simp_all
  from main_final_consistent [OF h g, of source_1] h g show ?thesis by blast
qed

text \<open>
  C7. The lookup of \<^verbatim>\<open>2D_contaminant_plot.py\<close> tests \<^verbatim>\<open>set([x, y]).issubset(lst)\<close>, which
  also holds when the coordinates are swapped. Asked for the point (2, 100), it returns the
  concentration stored for (100, 2), which stands earlier in the band lists.
\<close>

theorem get_specific_concentration_plot_wrong_sample:
  "get_specific_concentration_plot 2 100
     (get_all_coord_plot [[(100, 2, 994.6)], [], [(2, 100, 499.99)], []]) = Some 994.6"
  by (simp add: get_all_coord_plot_def reflect_over_y_axis_plot_def issubset_def py_in_def)

end
